theory Spec2Isabelle
  imports Main
begin

section \<open>Data model\<close>

text \<open>
  Chat messages (langchain.schema): a role and a text. \<open>QueryBot\<close> builds
  \<open>SystemMessage\<close> and \<open>HumanMessage\<close> values itself; the chat model hands back
  a message of its own.
\<close>

datatype message =
    SystemMessage (content: string)
  | HumanMessage (content: string)
  | AIMessage (content: string)

text \<open>
  Exceptions as values. \<open>ValueError msg\<close> carries its message,
  \<open>AttributeError ty attr\<close> is Python's "'ty' object has no attribute 'attr'", and
  \<open>UpstreamError\<close> stands for whatever else a collaborator raises.
\<close>

datatype error =
    ValueError string
  | AttributeError string string
  | UpstreamError string

text \<open>
  A retrieved node as \<open>index.query\<close> returns it in \<open>source_nodes\<close>: the chunk text
  (\<open>n.node.text\<close>) and the identity of the document it came from.
\<close>

datatype source_node = NodeWithScore (node_text: string) (node_doc: string)

section \<open>Paths (pathlib, POSIX flavour)\<close>

text \<open>
  \<open>QueryBot.save\<close> goes through \<open>pathlib.Path\<close>. A parsed path is its root
  (\<open>''''\<close>, \<open>''/''\<close> or \<open>''//''\<close>) and its components; there is no drive on POSIX.
  The functions below follow the standard library: \<open>Path(s)\<close> for a string \<open>s\<close>,
  \<open>name\<close>, \<open>suffix\<close>, \<open>with_suffix\<close> and \<open>str\<close>.
\<close>

record pure_path =
  path_root :: string
  path_parts :: "string list"

text \<open>Python's \<open>str.split(sep)\<close> for a one-character separator.\<close>

fun split_sep :: "char \<Rightarrow> string \<Rightarrow> string list" where
  "split_sep c [] = [[]]"
| "split_sep c (x # xs) =
     (if x = c then [] # split_sep c xs
      else (case split_sep c xs of
              [] \<Rightarrow> [[x]]
            | w # ws \<Rightarrow> (x # w) # ws))"

text \<open>
  \<open>splitroot\<close>: leading slashes are stripped with \<open>lstrip\<close>; exactly two of them
  give the root \<open>''//''\<close>, any other number the root \<open>''/''\<close>.
\<close>

definition splitroot :: "string \<Rightarrow> string \<times> string" where
  "splitroot part =
     (if part \<noteq> [] \<and> hd part = CHR ''/'' then
        (let stripped_part = dropWhile (\<lambda>c. c = CHR ''/'') part in
         if length part - length stripped_part = 2 then (''//'', stripped_part)
         else (''/'', stripped_part))
      else ('''', part))"

text \<open>
  \<open>Path(path)\<close> for a string: empty components and \<open>''.''\<close> components are dropped
  (\<open>parse_parts\<close>).
\<close>

definition Path_of :: "string \<Rightarrow> pure_path" where
  "Path_of s =
     (if s = [] then \<lparr>path_root = [], path_parts = []\<rparr>
      else (case splitroot s of
              (rt, rel) \<Rightarrow>
                \<lparr>path_root = rt,
                 path_parts = filter (\<lambda>x. x \<noteq> [] \<and> x \<noteq> ''.'') (split_sep CHR ''/'' rel)\<rparr>))"

text \<open>\<open>sep.join(parts)\<close> and \<open>str(path)\<close>; the empty path prints as \<open>''.''\<close>.\<close>

fun join_sep :: "string list \<Rightarrow> string" where
  "join_sep [] = []"
| "join_sep [x] = x"
| "join_sep (x # y # ys) = x @ ''/'' @ join_sep (y # ys)"

definition path_str :: "pure_path \<Rightarrow> string" where
  "path_str p =
     (let s = path_root p @ join_sep (path_parts p) in if s = [] then ''.'' else s)"

text \<open>\<open>path.name\<close>: the final component, empty when there is none.\<close>

definition path_name :: "pure_path \<Rightarrow> string" where
  "path_name p = (if path_parts p = [] then [] else last (path_parts p))"

text \<open>\<open>str.rfind(c)\<close>: the highest index holding \<open>c\<close>, or \<open>-1\<close>.\<close>

definition rfind :: "string \<Rightarrow> char \<Rightarrow> int" where
  "rfind s c =
     (if c \<in> set s
      then int (length s) - 1 - int (length (takeWhile (\<lambda>x. x \<noteq> c) (rev s)))
      else - 1)"

text \<open>
  \<open>path.suffix\<close>: the name from its last dot on, unless that dot is the first or the
  last character of the name (or there is none).
\<close>

definition path_suffix :: "pure_path \<Rightarrow> string" where
  "path_suffix p =
     (let name = path_name p; i = rfind name CHR ''.'' in
      if 0 < i \<and> i < int (length name) - 1 then drop (nat i) name else [])"

definition repr_str :: "string \<Rightarrow> string" where
  "repr_str s = [CHR 0x27] @ s @ [CHR 0x27]"

definition empty_name_error :: "pure_path \<Rightarrow> error" where
  "empty_name_error p =
     ValueError (''PosixPath('' @ repr_str (path_str p) @ '') has an empty name'')"

text \<open>
  \<open>path.with_suffix(suffix)\<close>: rejects a suffix holding a separator, a non-empty one
  not starting with a dot, and \<open>''.''\<close>; rejects a path with an empty name; otherwise
  replaces the old suffix of the name, or appends when the name has none.
\<close>

definition with_suffix :: "pure_path \<Rightarrow> string \<Rightarrow> error + pure_path" where
  "with_suffix p sfx =
     (if CHR ''/'' \<in> set sfx then Inl (ValueError (''Invalid suffix '' @ repr_str sfx))
      else if (sfx \<noteq> [] \<and> hd sfx \<noteq> CHR ''.'') \<or> sfx = ''.''
        then Inl (ValueError (''Invalid suffix '' @ repr_str sfx))
      else
        (let name = path_name p in
         if name = [] then Inl (empty_name_error p)
         else
           (let old_suffix = path_suffix p;
                name' = (if old_suffix = [] then name @ sfx
                         else take (length name - length old_suffix) name @ sfx)
            in Inr (p\<lparr>path_parts := butlast (path_parts p) @ [name']\<rparr>))))"

section \<open>Collaborators\<close>

text \<open>
  The vector index, the document loader and splitter, and the chat model are external
  libraries. Each is a parameter here: a function on an opaque outside world \<open>'w\<close>
  (index contents, file system, network), which may raise. An index object is a
  handle \<open>'idx\<close> into that world, so \<open>index.insert\<close> changes the world and the handle
  stays the same, as the Python object does.
\<close>

record ('idx, 'w) collaborators =
  GPTSimpleVectorIndex :: "'w \<Rightarrow> (error + 'idx) \<times> 'w"
  load_from_disk :: "string \<Rightarrow> 'w \<Rightarrow> (error + 'idx) \<times> 'w"
  index_insert :: "'idx \<Rightarrow> string \<Rightarrow> 'w \<Rightarrow> (error + unit) \<times> 'w"
  index_query :: "'idx \<Rightarrow> string \<Rightarrow> int \<Rightarrow> 'w \<Rightarrow> (error + source_node list) \<times> 'w"
  save_to_disk :: "'idx \<Rightarrow> pure_path \<Rightarrow> 'w \<Rightarrow> (error + unit) \<times> 'w"
  magic_load_doc :: "string \<Rightarrow> 'w \<Rightarrow> (error + string) \<times> 'w"
  split_document :: "string \<Rightarrow> int \<Rightarrow> int \<Rightarrow> 'w \<Rightarrow> (error + string list) \<times> 'w"
  chat :: "message list \<Rightarrow> 'w \<Rightarrow> (error + message) \<times> 'w"

section \<open>State\<close>

text \<open>The attributes of a \<open>QueryBot\<close> object.\<close>

record 'idx querybot =
  system_message :: string
  index :: "'idx option"
  doc_paths :: "string list option"
  chat_history :: "message list"
  source_nodes :: "string \<rightharpoonup> source_node list"
  chunk_size :: int
  chunk_overlap :: int

text \<open>An entry of \<open>PromptRecorder.prompts_and_responses\<close>.\<close>

record recorder_entry =
  prompt :: string
  response :: string

type_synonym recorder_ref = nat

text \<open>
  The program state: one bot, the context variable \<open>prompt_recorder_var\<close> of
  recorder.py (never set and set to \<open>None\<close> read the same through \<open>get(None)\<close>;
  the variable of the same name in querybot.py is never read or written),
  the \<open>prompts_and_responses\<close> list of every \<open>PromptRecorder\<close> object by reference,
  and the outside world.
\<close>

record ('idx, 'w) state =
  qbot :: "'idx querybot"
  prompt_recorder_var :: "recorder_ref option"
  recorders :: "recorder_ref \<Rightarrow> recorder_entry list"
  world :: 'w

section \<open>recorder.py\<close>

definition PromptRecorder_enter ::
  "recorder_ref \<Rightarrow> ('idx, 'w) state \<Rightarrow> ('idx, 'w) state" where
  "PromptRecorder_enter r st = st\<lparr>prompt_recorder_var := Some r\<rparr>"

definition PromptRecorder_exit ::
  "recorder_ref \<Rightarrow> ('idx, 'w) state \<Rightarrow> ('idx, 'w) state" where
  "PromptRecorder_exit r st = st\<lparr>prompt_recorder_var := None\<rparr>"

definition PromptRecorder_log ::
  "recorder_ref \<Rightarrow> string \<Rightarrow> string \<Rightarrow> ('idx, 'w) state \<Rightarrow> ('idx, 'w) state" where
  "PromptRecorder_log r p resp st =
     st\<lparr>recorders := (recorders st)(r := recorders st r @ [\<lparr>prompt = p, response = resp\<rparr>])\<rparr>"

text \<open>A \<open>PromptRecorder\<close> object is always truthy, so only \<open>None\<close> skips the log.\<close>

definition autorecord ::
  "string \<Rightarrow> string \<Rightarrow> ('idx, 'w) state \<Rightarrow> ('idx, 'w) state" where
  "autorecord p resp st =
     (case prompt_recorder_var st of
        None \<Rightarrow> st
      | Some prompt_recorder \<Rightarrow> PromptRecorder_log prompt_recorder p resp st)"


section \<open>querybot.py\<close>

text \<open>The inner loop of \<open>insert_documents_into_index\<close>: \<open>for doc in docs: index.insert(doc)\<close>.\<close>

fun insert_docs ::
  "('idx, 'w) collaborators \<Rightarrow> 'idx option \<Rightarrow> string list \<Rightarrow> 'w \<Rightarrow> (error + unit) \<times> 'w" where
  "insert_docs lib ix [] w = (Inr (), w)"
| "insert_docs lib ix (doc # docs) w =
     (case ix of
        None \<Rightarrow> (Inl (AttributeError ''NoneType'' ''insert''), w)
      | Some i \<Rightarrow>
          (case index_insert lib i doc w of
             (Inl e, w') \<Rightarrow> (Inl e, w')
           | (Inr u, w') \<Rightarrow> insert_docs lib ix docs w'))"

fun insert_documents_into_index ::
  "('idx, 'w) collaborators \<Rightarrow> string list \<Rightarrow> 'idx option \<Rightarrow> int \<Rightarrow> int \<Rightarrow> 'w \<Rightarrow>
   (error + 'idx option) \<times> 'w" where
  "insert_documents_into_index lib [] ix cs co w = (Inr ix, w)"
| "insert_documents_into_index lib (path # paths) ix cs co w =
     (case magic_load_doc lib path w of
        (Inl e, w1) \<Rightarrow> (Inl e, w1)
      | (Inr document, w1) \<Rightarrow>
          (case split_document lib document cs co w1 of
             (Inl e, w2) \<Rightarrow> (Inl e, w2)
           | (Inr docs, w2) \<Rightarrow>
               (case insert_docs lib ix docs w2 of
                  (Inl e, w3) \<Rightarrow> (Inl e, w3)
                | (Inr u, w3) \<Rightarrow> insert_documents_into_index lib paths ix cs co w3)))"

definition anti_hallucination :: string where
  "anti_hallucination =
     ''Do not hallucinate content.'' @ [CHR 0x0A] @
     ''If you cannot answer something, respond by saying that you don'' @ [CHR 0x27] @
     ''t know.'' @ [CHR 0x0A]"

text \<open>
  \<open>QueryBot.__init__\<close>. The \<open>else\<close> belongs to \<open>if doc_paths is not None\<close>: without
  document paths the index is set to \<open>None\<close>, whatever was built or loaded before.
  Building the chat model and the service context is left to the collaborators, and
  the logger's warning has no effect on the state.
\<close>

definition QueryBot_init ::
  "('idx, 'w) collaborators \<Rightarrow> string \<Rightarrow> string list option \<Rightarrow> string option \<Rightarrow>
   int \<Rightarrow> int \<Rightarrow> 'w \<Rightarrow> (error + 'idx querybot) \<times> 'w" where
  "QueryBot_init lib sysmsg dpaths saved_index_path csize coverlap w =
     (case GPTSimpleVectorIndex lib w of
        (Inl e, w1) \<Rightarrow> (Inl e, w1)
      | (Inr index0, w1) \<Rightarrow>
          (case (case saved_index_path of
                   None \<Rightarrow> (Inr index0, w1)
                 | Some p \<Rightarrow> load_from_disk lib p w1) of
             (Inl e, w2) \<Rightarrow> (Inl e, w2)
           | (Inr index1, w2) \<Rightarrow>
               (case (case dpaths of
                        Some ps \<Rightarrow>
                          insert_documents_into_index lib ps (Some index1) csize coverlap w2
                      | None \<Rightarrow> (Inr None, w2)) of
                  (Inl e, w3) \<Rightarrow> (Inl e, w3)
                | (Inr index2, w3) \<Rightarrow>
                    (Inr \<lparr>system_message = sysmsg,
                          index = index2,
                          doc_paths = dpaths,
                          chat_history =
                            [SystemMessage sysmsg, SystemMessage anti_hallucination],
                          source_nodes = Map.empty,
                          chunk_size = csize,
                          chunk_overlap = coverlap\<rparr>, w3))))"

text \<open>Step 2 of \<open>__call__\<close>: the faux message history, built by appending.\<close>

definition faux_chat_history :: "string \<Rightarrow> string list \<Rightarrow> string \<Rightarrow> message list" where
  "faux_chat_history sysmsg source_texts query =
     (let h0 = [SystemMessage sysmsg];
          h1 = h0 @ [SystemMessage ''Here is the context you will be working with:''];
          h2 = foldl (\<lambda>h t. h @ [SystemMessage t]) h1 source_texts;
          h3 = h2 @ [SystemMessage ''Based on this context, answer the following query:'']
      in h3 @ [HumanMessage query])"

definition not_initialized :: error where
  "not_initialized =
     ValueError ''You need to provide a document for querybot to index against!''"

text \<open>
  \<open>QueryBot.__call__\<close>. An exception leaves the object as it is at that point; the
  world keeps what the collaborators did before.
\<close>

definition QueryBot_call ::
  "('idx, 'w) collaborators \<Rightarrow> string \<Rightarrow> int \<Rightarrow> ('idx, 'w) state \<Rightarrow>
   (error + message) \<times> ('idx, 'w) state" where
  "QueryBot_call lib query similarity_top_k st =
     (case index (qbot st) of
        None \<Rightarrow> (Inl not_initialized, st)
      | Some ix \<Rightarrow>
          (case index_query lib ix query similarity_top_k (world st) of
             (Inl e, w1) \<Rightarrow> (Inl e, st\<lparr>world := w1\<rparr>)
           | (Inr nodes, w1) \<Rightarrow>
               (let source_texts = map node_text nodes;
                    faux = faux_chat_history (system_message (qbot st)) source_texts query
                in case chat lib faux w1 of
                     (Inl e, w2) \<Rightarrow> (Inl e, st\<lparr>world := w2\<rparr>)
                   | (Inr resp, w2) \<Rightarrow>
                       (let b1 = (qbot st)\<lparr>chat_history :=
                                    chat_history (qbot st) @ [HumanMessage query]\<rparr>;
                            b2 = b1\<lparr>chat_history := chat_history b1 @ [resp]\<rparr>;
                            b3 = b2\<lparr>source_nodes := (source_nodes b2)(query \<mapsto> nodes)\<rparr>
                        in (Inr resp,
                            autorecord query (content resp) (st\<lparr>qbot := b3, world := w2\<rparr>))))))"

text \<open>
  \<open>QueryBot.save\<close>: the path is normalised first, then \<open>self.index\<close> is
  dereferenced.
\<close>

definition QueryBot_save ::
  "('idx, 'w) collaborators \<Rightarrow> string \<Rightarrow> ('idx, 'w) state \<Rightarrow>
   (error + unit) \<times> ('idx, 'w) state" where
  "QueryBot_save lib path st =
     (let p = Path_of path in
      case (if path_suffix p \<noteq> ''.json'' then with_suffix p ''.json'' else Inr p) of
        Inl e \<Rightarrow> (Inl e, st)
      | Inr p' \<Rightarrow>
          (case index (qbot st) of
             None \<Rightarrow> (Inl (AttributeError ''NoneType'' ''save_to_disk''), st)
           | Some ix \<Rightarrow>
               (case save_to_disk lib ix p' (world st) of
                  (r, w') \<Rightarrow> (r, st\<lparr>world := w'\<rparr>))))"

definition QueryBot_insert ::
  "('idx, 'w) collaborators \<Rightarrow> string \<Rightarrow> ('idx, 'w) state \<Rightarrow>
   (error + unit) \<times> ('idx, 'w) state" where
  "QueryBot_insert lib file st =
     (case insert_documents_into_index lib [file] (index (qbot st))
             (chunk_size (qbot st)) (chunk_overlap (qbot st)) (world st) of
        (Inl e, w') \<Rightarrow> (Inl e, st\<lparr>world := w'\<rparr>)
      | (Inr ix, w') \<Rightarrow> (Inr (), st\<lparr>qbot := (qbot st)\<lparr>index := ix\<rparr>, world := w'\<rparr>))"

section \<open>Sequences of calls\<close>

text \<open>
  What a caller can do with one bot: ask, insert a document, save the index, and enter
  or leave a recorder scope. A caller may catch an exception and go on, so a failed
  call hands on the state it left.
\<close>

datatype call =
    Answer string int
  | Insert string
  | Save string
  | Enter recorder_ref
  | Exit recorder_ref

fun step :: "('idx, 'w) collaborators \<Rightarrow> call \<Rightarrow> ('idx, 'w) state \<Rightarrow> ('idx, 'w) state" where
  "step lib (Answer q k) st = snd (QueryBot_call lib q k st)"
| "step lib (Insert file) st = snd (QueryBot_insert lib file st)"
| "step lib (Save path) st = snd (QueryBot_save lib path st)"
| "step lib (Enter r) st = PromptRecorder_enter r st"
| "step lib (Exit r) st = PromptRecorder_exit r st"

fun run_calls ::
  "('idx, 'w) collaborators \<Rightarrow> call list \<Rightarrow> ('idx, 'w) state \<Rightarrow> ('idx, 'w) state" where
  "run_calls lib [] st = st"
| "run_calls lib (c # cs) st = run_calls lib cs (step lib c st)"


section \<open>A small concrete library\<close>

text \<open>
  One in-memory index holding its chunks in insertion order, a table of saved
  indexes by path, a loader that reads a path as its own text, a splitter that keeps
  a document whole, and a chat model that answers the query it is given and fails on
  the query \<open>''boom''\<close>. It instantiates the collaborators for concrete runs.
\<close>

record toy_world =
  chunks :: "string list"
  saved :: "(string \<times> string list) list"

definition toy_chat :: "message list \<Rightarrow> toy_world \<Rightarrow> (error + message) \<times> toy_world" where
  "toy_chat msgs w =
     (if msgs = [] then (Inl (UpstreamError ''no messages''), w)
      else if content (last msgs) = ''boom'' then (Inl (UpstreamError ''model failure''), w)
      else (Inr (AIMessage (''answer to '' @ content (last msgs))), w))"

definition toy_lib :: "(unit, toy_world) collaborators" where
  "toy_lib =
     \<lparr>GPTSimpleVectorIndex = (\<lambda>w. (Inr (), w\<lparr>chunks := []\<rparr>)),
      load_from_disk = (\<lambda>p w. case map_of (saved w) p of
                                  None \<Rightarrow> (Inl (UpstreamError ''no such file''), w)
                                | Some cs \<Rightarrow> (Inr (), w\<lparr>chunks := cs\<rparr>)),
      index_insert = (\<lambda>i d w. (Inr (), w\<lparr>chunks := chunks w @ [d]\<rparr>)),
      index_query = (\<lambda>i q k w. (Inr (map (\<lambda>t. NodeWithScore t ''doc'') (take (nat k) (chunks w))), w)),
      save_to_disk = (\<lambda>i p w. (Inr (), w\<lparr>saved := (path_str p, chunks w) # saved w\<rparr>)),
      magic_load_doc = (\<lambda>p w. (Inr p, w)),
      split_document = (\<lambda>d cs co w. (Inr [d], w)),
      chat = toy_chat\<rparr>"

definition toy_world0 :: toy_world where
  "toy_world0 = \<lparr>chunks = [], saved = [(''index.json'', [''The capital of Freedonia is Fredonia City.''])]\<rparr>"

text \<open>A state around a bot: no recorder active, every recorder empty.\<close>

definition fresh_state :: "'idx querybot \<Rightarrow> 'w \<Rightarrow> ('idx, 'w) state" where
  "fresh_state b w = \<lparr>qbot = b, prompt_recorder_var = None, recorders = (\<lambda>r. []), world = w\<rparr>"

text \<open>
  A bot built by hand over the toy index, with the attributes \<open>__init__\<close> sets when
  given the document \<open>''Fredonia City''\<close>.
\<close>

definition toy_bot :: "unit querybot" where
  "toy_bot =
     \<lparr>system_message = ''You are a helpful librarian'',
      index = Some (),
      doc_paths = Some [''Fredonia City''],
      chat_history = [SystemMessage ''You are a helpful librarian'',
                      SystemMessage anti_hallucination],
      source_nodes = Map.empty,
      chunk_size = 2000,
      chunk_overlap = 0\<rparr>"

definition toy_state :: "(unit, toy_world) state" where
  "toy_state = fresh_state toy_bot \<lparr>chunks = [''Fredonia City''], saved = []\<rparr>"

text \<open>
  A second library, whose chat model keeps a log: every call appends the message
  sequence it was given to \<open>sent\<close>, so the world after a run shows what the model
  received. Its index holds its chunks in insertion order and has nothing saved.
\<close>

record log_world =
  held :: "string list"
  sent :: "message list list"

definition log_lib :: "(unit, log_world) collaborators" where
  "log_lib =
     \<lparr>GPTSimpleVectorIndex = (\<lambda>w. (Inr (), w\<lparr>held := []\<rparr>)),
      load_from_disk = (\<lambda>p w. (Inl (UpstreamError ''no such file''), w)),
      index_insert = (\<lambda>i d w. (Inr (), w\<lparr>held := held w @ [d]\<rparr>)),
      index_query = (\<lambda>i q k w. (Inr (map (\<lambda>t. NodeWithScore t ''doc'') (take (nat k) (held w))), w)),
      save_to_disk = (\<lambda>i p w. (Inr (), w)),
      magic_load_doc = (\<lambda>p w. (Inr p, w)),
      split_document = (\<lambda>d cs co w. (Inr [d], w)),
      chat = (\<lambda>msgs w. (Inr (AIMessage ''ok''), w\<lparr>sent := sent w @ [msgs]\<rparr>))\<rparr>"

definition log_state :: "(unit, log_world) state" where
  "log_state = fresh_state toy_bot \<lparr>held = [''Fredonia City'', ''Sylvania''], sent = []\<rparr>"

section \<open>Basic facts\<close>

lemma foldl_append_each: "foldl (\<lambda>h t. h @ [f t]) h ts = h @ map f ts"
  by (induction ts arbitrary: h) simp_all

lemma faux_chat_history_eq:
  "faux_chat_history sysmsg texts query =
     [SystemMessage sysmsg, SystemMessage ''Here is the context you will be working with:'']
     @ map SystemMessage texts
     @ [SystemMessage ''Based on this context, answer the following query:'',
        HumanMessage query]"
  by (simp add: faux_chat_history_def Let_def foldl_append_each)

lemma autorecord_qbot [simp]: "qbot (autorecord p a st) = qbot st"
  by (simp add: autorecord_def PromptRecorder_log_def split: option.splits)

lemma autorecord_world [simp]: "world (autorecord p a st) = world st"
  by (simp add: autorecord_def PromptRecorder_log_def split: option.splits)

lemma autorecord_var [simp]: "prompt_recorder_var (autorecord p a st) = prompt_recorder_var st"
  by (simp add: autorecord_def PromptRecorder_log_def split: option.splits)

text \<open>A successful call went through the index query and the chat model, in that order.\<close>

lemma QueryBot_call_success:
  assumes "QueryBot_call lib query k st = (Inr resp, st')"
  obtains ix nodes w1 w2 where
    "index (qbot st) = Some ix"
    "index_query lib ix query k (world st) = (Inr nodes, w1)"
    "chat lib (faux_chat_history (system_message (qbot st)) (map node_text nodes) query) w1
       = (Inr resp, w2)"
    "st' = autorecord query (content resp)
             (st\<lparr>qbot := (qbot st)\<lparr>chat_history := chat_history (qbot st) @ [HumanMessage query, resp],
                                 source_nodes := (source_nodes (qbot st))(query \<mapsto> nodes)\<rparr>,
                 world := w2\<rparr>)"
  using assms
  by (auto simp: QueryBot_call_def Let_def split: option.splits prod.splits sum.splits)

text \<open>A failed call changes nothing but the world.\<close>

lemma QueryBot_call_failure:
  assumes "QueryBot_call lib query k st = (Inl e, st')"
  shows "\<exists>w'. st' = st\<lparr>world := w'\<rparr>"
proof (cases "index (qbot st)")
  case None
  with assms have "st' = st\<lparr>world := world st\<rparr>"
    by (simp add: QueryBot_call_def)
  then show ?thesis by blast
next
  case (Some ix)
  with assms show ?thesis
    by (auto simp: QueryBot_call_def Let_def split: prod.splits sum.splits)
qed

section \<open>Answering a query\<close>

lemmas toy_defs =
  toy_lib_def toy_state_def fresh_state_def toy_bot_def toy_chat_def

lemma toy_call_capital:
  "QueryBot_call toy_lib ''capital?'' 1 toy_state =
     (Inr (AIMessage ''answer to capital?''),
      snd (QueryBot_call toy_lib ''capital?'' 1 toy_state))"
  by (simp add: QueryBot_call_def toy_defs faux_chat_history_def Let_def)

text \<open>
  C2. A successful answer appends exactly two entries to the conversation history,
  the human query and then the model's answer. When that answer is an assistant
  message, neither appended entry is a message of the transient context block (the
  transient sequence without its final human query), whatever chunks were retrieved.
\<close>

theorem answer_grows_history_by_two:
  assumes "QueryBot_call lib query k st = (Inr resp, st')"
      and "resp = AIMessage answer"
  shows "chat_history (qbot st') = chat_history (qbot st) @ [HumanMessage query, resp]
       \<and> length (chat_history (qbot st')) = length (chat_history (qbot st)) + 2
       \<and> (\<forall>texts. \<forall>m \<in> set (butlast (faux_chat_history (system_message (qbot st)) texts query)).
             m \<noteq> HumanMessage query \<and> m \<noteq> resp)"
proof -
  from assms(1) have hist:
    "chat_history (qbot st') = chat_history (qbot st) @ [HumanMessage query, resp]"
    by (rule QueryBot_call_success) simp
  have ctx: "m \<noteq> HumanMessage query \<and> m \<noteq> resp"
    if "m \<in> set (butlast (faux_chat_history (system_message (qbot st)) texts query))"
    for texts m
  proof -
    have "butlast (faux_chat_history (system_message (qbot st)) texts query) =
          [SystemMessage (system_message (qbot st)),
           SystemMessage ''Here is the context you will be working with:'']
          @ map SystemMessage texts
          @ [SystemMessage ''Based on this context, answer the following query:'']"
      by (simp add: faux_chat_history_eq butlast_append)
    with that obtain t where "m = SystemMessage t" by auto
    with assms(2) show ?thesis by simp
  qed
  from hist ctx show ?thesis by simp
qed

theorem answer_grows_history_by_two_witness:
  "chat_history (qbot (snd (QueryBot_call toy_lib ''capital?'' 1 toy_state))) =
     [SystemMessage ''You are a helpful librarian'', SystemMessage anti_hallucination,
      HumanMessage ''capital?'', AIMessage ''answer to capital?'']"
  using answer_grows_history_by_two [OF toy_call_capital refl]
  by (simp add: toy_defs)

text \<open>
  C3. With no index, the answer fails with the configuration error and returns the
  state as it was: history, query record, recorders and the outside world. No
  collaborator is consulted, since the result does not depend on them.
\<close>

theorem answer_without_index:
  assumes "index (qbot st) = None"
  shows "QueryBot_call lib query k st = (Inl not_initialized, st)
       \<and> not_initialized =
           ValueError ''You need to provide a document for querybot to index against!''"
  using assms by (simp add: QueryBot_call_def not_initialized_def)

theorem answer_without_index_witness:
  "QueryBot_call toy_lib ''capital?'' 3 (toy_state\<lparr>qbot := toy_bot\<lparr>index := None\<rparr>\<rparr>) =
     (Inl (ValueError ''You need to provide a document for querybot to index against!''),
      toy_state\<lparr>qbot := toy_bot\<lparr>index := None\<rparr>\<rparr>)"
  using answer_without_index [of "toy_state\<lparr>qbot := toy_bot\<lparr>index := None\<rparr>\<rparr>" toy_lib "''capital?''" 3]
  by simp

text \<open>
  C4. When the index query raises, or the chat model raises on the transient sequence,
  the answer fails with that same error, and the conversation history, the query
  record and every recorder are as before; only the outside world has moved.
\<close>

theorem failed_answer_leaves_state:
  assumes "index (qbot st) = Some ix"
      and "index_query lib ix query k (world st) = (Inl e, w') \<or>
           (\<exists>nodes w1. index_query lib ix query k (world st) = (Inr nodes, w1) \<and>
              chat lib (faux_chat_history (system_message (qbot st)) (map node_text nodes) query) w1
                = (Inl e, w'))"
  shows "QueryBot_call lib query k st = (Inl e, st\<lparr>world := w'\<rparr>)
       \<and> chat_history (qbot (snd (QueryBot_call lib query k st))) = chat_history (qbot st)
       \<and> source_nodes (qbot (snd (QueryBot_call lib query k st))) = source_nodes (qbot st)
       \<and> recorders (snd (QueryBot_call lib query k st)) = recorders st"
proof -
  from assms have "QueryBot_call lib query k st = (Inl e, st\<lparr>world := w'\<rparr>)"
    by (auto simp: QueryBot_call_def Let_def)
  then show ?thesis by simp
qed

theorem failed_answer_leaves_state_witness:
  "QueryBot_call toy_lib ''boom'' 1 toy_state = (Inl (UpstreamError ''model failure''), toy_state)"
proof -
  have "index (qbot toy_state) = Some ()"
    by (simp add: toy_defs)
  moreover have "index_query toy_lib () ''boom'' 1 (world toy_state) = (Inl (UpstreamError ''model failure''), world toy_state) \<or>
           (\<exists>nodes w1. index_query toy_lib () ''boom'' 1 (world toy_state) = (Inr nodes, w1) \<and>
              chat toy_lib (faux_chat_history (system_message (qbot toy_state)) (map node_text nodes) ''boom'') w1
                = (Inl (UpstreamError ''model failure''), world toy_state))"
    by (simp add: toy_defs faux_chat_history_def)
  ultimately show ?thesis
    using failed_answer_leaves_state [of toy_state "()" toy_lib "''boom''" 1 "UpstreamError ''model failure''" "world toy_state"]
    by simp
qed

text \<open>
  C5. A successful answer has obtained its response from the chat model on exactly
  this sequence: the system instruction, the context marker, one system message per
  retrieved node in the order the index returned them, the query marker, and the
  human query. And whenever the index query has returned its nodes, the answer calls
  the chat model on that sequence: its outcome and the world it leaves are those of
  the chat model there.
\<close>

theorem transient_sequence_order:
  "(QueryBot_call lib query k st = (Inr resp, st') \<longrightarrow>
      (\<exists>ix nodes w1 w2.
           index (qbot st) = Some ix
         \<and> index_query lib ix query k (world st) = (Inr nodes, w1)
         \<and> chat lib
              ([SystemMessage (system_message (qbot st)),
                SystemMessage ''Here is the context you will be working with:'']
               @ map (\<lambda>n. SystemMessage (node_text n)) nodes
               @ [SystemMessage ''Based on this context, answer the following query:'',
                  HumanMessage query]) w1
             = (Inr resp, w2)))
   \<and> (index (qbot st) = Some ix' \<and> index_query lib ix' query k (world st) = (Inr nodes', w1') \<longrightarrow>
        fst (QueryBot_call lib query k st) =
          fst (chat lib
              ([SystemMessage (system_message (qbot st)),
                SystemMessage ''Here is the context you will be working with:'']
               @ map (\<lambda>n. SystemMessage (node_text n)) nodes'
               @ [SystemMessage ''Based on this context, answer the following query:'',
                  HumanMessage query]) w1')
      \<and> world (snd (QueryBot_call lib query k st)) =
          snd (chat lib
              ([SystemMessage (system_message (qbot st)),
                SystemMessage ''Here is the context you will be working with:'']
               @ map (\<lambda>n. SystemMessage (node_text n)) nodes'
               @ [SystemMessage ''Based on this context, answer the following query:'',
                  HumanMessage query]) w1'))"
proof (intro conjI impI)
  assume "QueryBot_call lib query k st = (Inr resp, st')"
  then show "\<exists>ix nodes w1 w2.
           index (qbot st) = Some ix
         \<and> index_query lib ix query k (world st) = (Inr nodes, w1)
         \<and> chat lib
              ([SystemMessage (system_message (qbot st)),
                SystemMessage ''Here is the context you will be working with:'']
               @ map (\<lambda>n. SystemMessage (node_text n)) nodes
               @ [SystemMessage ''Based on this context, answer the following query:'',
                  HumanMessage query]) w1
             = (Inr resp, w2)"
    by (rule QueryBot_call_success) (auto simp: faux_chat_history_eq comp_def)
next
  let ?msgs = "[SystemMessage (system_message (qbot st)),
                SystemMessage ''Here is the context you will be working with:'']
               @ map (\<lambda>n. SystemMessage (node_text n)) nodes'
               @ [SystemMessage ''Based on this context, answer the following query:'',
                  HumanMessage query]"
  assume h: "index (qbot st) = Some ix' \<and> index_query lib ix' query k (world st) = (Inr nodes', w1')"
  have f: "faux_chat_history (system_message (qbot st)) (map node_text nodes') query = ?msgs"
    by (simp add: faux_chat_history_eq comp_def)
  from h show "fst (QueryBot_call lib query k st) = fst (chat lib ?msgs w1')"
    unfolding f [symmetric]
    by (auto simp: QueryBot_call_def Let_def split: prod.splits sum.splits)
  from h show "world (snd (QueryBot_call lib query k st)) = snd (chat lib ?msgs w1')"
    unfolding f [symmetric]
    by (auto simp: QueryBot_call_def Let_def split: prod.splits sum.splits)
qed

lemma log_call_capital:
  "QueryBot_call log_lib ''capital?'' 2 log_state =
     (Inr (AIMessage ''ok''), snd (QueryBot_call log_lib ''capital?'' 2 log_state))"
  by (simp add: QueryBot_call_def log_lib_def log_state_def fresh_state_def toy_bot_def
      faux_chat_history_def Let_def)

theorem transient_sequence_order_witness:
  "fst (QueryBot_call log_lib ''capital?'' 2 log_state) = Inr (AIMessage ''ok'')
   \<and> world (snd (QueryBot_call log_lib ''capital?'' 2 log_state)) =
       \<lparr>held = [''Fredonia City'', ''Sylvania''],
        sent = [[SystemMessage ''You are a helpful librarian'',
                 SystemMessage ''Here is the context you will be working with:'',
                 SystemMessage ''Fredonia City'',
                 SystemMessage ''Sylvania'',
                 SystemMessage ''Based on this context, answer the following query:'',
                 HumanMessage ''capital?'']]\<rparr>"
proof -
  let ?w = "\<lparr>held = [''Fredonia City'', ''Sylvania''], sent = []\<rparr>"
  let ?nodes = "[NodeWithScore ''Fredonia City'' ''doc'', NodeWithScore ''Sylvania'' ''doc'']"
  have q: "index (qbot log_state) = Some () \<and>
           index_query log_lib () ''capital?'' 2 (world log_state) = (Inr ?nodes, ?w)"
    by (simp add: log_lib_def log_state_def fresh_state_def toy_bot_def)
  have s: "system_message (qbot log_state) = ''You are a helpful librarian''"
    by (simp add: log_state_def fresh_state_def toy_bot_def)
  have c: "chat log_lib msgs ?w =
             (Inr (AIMessage ''ok''), \<lparr>held = [''Fredonia City'', ''Sylvania''], sent = [msgs]\<rparr>)"
    for msgs
    by (simp add: log_lib_def)
  from transient_sequence_order [of log_lib "''capital?''" 2 log_state "AIMessage ''ok''"
      "snd (QueryBot_call log_lib ''capital?'' 2 log_state)" "()" ?nodes ?w]
    log_call_capital q
  show ?thesis
    by (simp add: s c)
qed

section \<open>The recorder scope\<close>








section \<open>The fixed prefix of the conversation history\<close>

lemma QueryBot_init_history:
  assumes "QueryBot_init lib sysmsg dpaths sip cs co w = (Inr b, w')"
  shows "chat_history b = [SystemMessage sysmsg, SystemMessage anti_hallucination]"
  using assms
  by (auto simp: QueryBot_init_def split: prod.splits sum.splits)

lemma step_history_extends:
  "\<exists>ext. chat_history (qbot (step lib c st)) = chat_history (qbot st) @ ext"
proof (cases c)
  case (Answer q k)
  show ?thesis
  proof (cases "fst (QueryBot_call lib q k st)")
    case (Inl e)
    then have "QueryBot_call lib q k st = (Inl e, snd (QueryBot_call lib q k st))"
      by (simp add: prod_eq_iff)
    from QueryBot_call_failure [OF this] Answer show ?thesis by auto
  next
    case (Inr r)
    then have "QueryBot_call lib q k st = (Inr r, snd (QueryBot_call lib q k st))"
      by (simp add: prod_eq_iff)
    then show ?thesis using Answer
      by (elim QueryBot_call_success) simp
  qed
qed (auto simp: QueryBot_insert_def QueryBot_save_def PromptRecorder_exit_def
       PromptRecorder_enter_def Let_def split: prod.splits sum.splits option.splits)

lemma run_calls_history_extends:
  "\<exists>ext. chat_history (qbot (run_calls lib cs st)) = chat_history (qbot st) @ ext"
proof (induction cs arbitrary: st)
  case Nil
  then show ?case by simp
next
  case (Cons c cs)
  obtain e1 where "chat_history (qbot (step lib c st)) = chat_history (qbot st) @ e1"
    using step_history_extends by blast
  moreover obtain e2 where
    "chat_history (qbot (run_calls lib cs (step lib c st))) =
       chat_history (qbot (step lib c st)) @ e2"
    using Cons.IH by blast
  ultimately show ?case by simp
qed

text \<open>
  C8. For a bot that \<open>__init__\<close> has built, after any sequence of answer, insert and
  save calls (and of entering and leaving recorder scopes), failed calls included,
  the first two entries of the conversation history are the two system messages of
  the constructor.
\<close>

theorem history_prefix_fixed:
  assumes "QueryBot_init lib sysmsg dpaths sip csize coverlap w = (Inr b, w')"
      and "qbot st = b"
  shows "take 2 (chat_history (qbot (run_calls lib cs st))) =
           [SystemMessage sysmsg, SystemMessage anti_hallucination]"
proof -
  obtain ext where
    "chat_history (qbot (run_calls lib cs st)) = chat_history (qbot st) @ ext"
    using run_calls_history_extends by blast
  with assms show ?thesis
    by (simp add: QueryBot_init_history [OF assms(1)])
qed

lemma toy_init:
  "QueryBot_init toy_lib ''You are a helpful librarian'' (Some [''Fredonia City'']) None 2000 0
     \<lparr>chunks = [], saved = []\<rparr> =
   (Inr toy_bot, \<lparr>chunks = [''Fredonia City''], saved = []\<rparr>)"
  by (simp add: QueryBot_init_def toy_defs)

theorem history_prefix_fixed_witness:
  "take 2 (chat_history (qbot (run_calls toy_lib
      [Answer ''capital?'' 1, Insert ''Sylvania'', Save ''index.bin'', Answer ''boom'' 1]
      toy_state))) =
   [SystemMessage ''You are a helpful librarian'', SystemMessage anti_hallucination]
   \<and> length (chat_history (qbot (run_calls toy_lib
      [Answer ''capital?'' 1, Insert ''Sylvania'', Save ''index.bin'', Answer ''boom'' 1]
      toy_state))) = 4"
proof -
  have b: "qbot toy_state = toy_bot" by (simp add: toy_defs)
  have l: "length (chat_history (qbot (run_calls toy_lib
      [Answer ''capital?'' 1, Insert ''Sylvania'', Save ''index.bin'', Answer ''boom'' 1]
      toy_state))) = 4"
    by (simp add: QueryBot_call_def QueryBot_insert_def QueryBot_save_def toy_defs
        faux_chat_history_def autorecord_def Let_def Path_of_def splitroot_def path_suffix_def
        path_name_def rfind_def with_suffix_def)
  have p: "take 2 (chat_history (qbot (run_calls toy_lib
      [Answer ''capital?'' 1, Insert ''Sylvania'', Save ''index.bin'', Answer ''boom'' 1]
      toy_state))) =
   [SystemMessage ''You are a helpful librarian'', SystemMessage anti_hallucination]"
    by (rule history_prefix_fixed [OF toy_init b])
  from p l show ?thesis by (rule conjI)
qed

section \<open>Construction from a saved index\<close>

text \<open>
  Without document paths the constructor leaves no index, also when a saved index
  path was given and loaded.
\<close>

lemma QueryBot_init_no_documents:
  assumes "QueryBot_init lib sysmsg None sip csize coverlap w = (Inr b, w')"
  shows "index b = None"
  using assms
  by (auto simp: QueryBot_init_def split: prod.splits sum.splits)

text \<open>
  C1. The constructor is given the path of a persisted index and no document paths.
  The index is loaded (the world holds its chunk), yet the bot's \<open>index\<close> is
  \<open>None\<close>, and the next answer fails with the configuration error.
\<close>

theorem saved_index_is_discarded:
  "QueryBot_init toy_lib ''You are a helpful librarian'' None (Some ''index.json'') 2000 0 toy_world0 =
     (Inr \<lparr>system_message = ''You are a helpful librarian'',
           index = None,
           doc_paths = None,
           chat_history = [SystemMessage ''You are a helpful librarian'',
                           SystemMessage anti_hallucination],
           source_nodes = Map.empty,
           chunk_size = 2000,
           chunk_overlap = 0\<rparr>,
      \<lparr>chunks = [''The capital of Freedonia is Fredonia City.''],
       saved = [(''index.json'', [''The capital of Freedonia is Fredonia City.''])]\<rparr>)
   \<and> fst (QueryBot_call toy_lib ''What is the capital of Freedonia?'' 1
        (fresh_state
           \<lparr>system_message = ''You are a helpful librarian'',
            index = None,
            doc_paths = None,
            chat_history = [SystemMessage ''You are a helpful librarian'',
                            SystemMessage anti_hallucination],
            source_nodes = Map.empty,
            chunk_size = 2000,
            chunk_overlap = 0\<rparr>
           \<lparr>chunks = [''The capital of Freedonia is Fredonia City.''],
            saved = [(''index.json'', [''The capital of Freedonia is Fredonia City.''])]\<rparr>)) =
     Inl (ValueError ''You need to provide a document for querybot to index against!'')"
  by (simp add: QueryBot_init_def QueryBot_call_def toy_lib_def toy_world0_def fresh_state_def
      not_initialized_def)

section \<open>Saving the index\<close>

lemmas path_defs =
  Path_of_def splitroot_def path_suffix_def path_name_def rfind_def with_suffix_def
  path_str_def empty_name_error_def repr_str_def

lemma rfind_json:
  "rfind (stem @ ''.json'') CHR ''.'' = int (length stem)"
  by (simp add: rfind_def)

text \<open>A name splits into its stem and its suffix; the stem of a non-empty name is not empty.\<close>

lemma name_stem_suffix:
  assumes "path_name p \<noteq> []"
  obtains stem where
    "stem \<noteq> []"
    "path_name p = stem @ path_suffix p"
    "(if path_suffix p = [] then path_name p
      else take (length (path_name p) - length (path_suffix p)) (path_name p)) = stem"
proof (cases "path_suffix p = []")
  case True
  with assms that [of "path_name p"] show ?thesis by simp
next
  case False
  define i where "i = rfind (path_name p) CHR ''.''"
  from False have i: "0 < i" "i < int (length (path_name p)) - 1"
    and s: "path_suffix p = drop (nat i) (path_name p)"
    by (auto simp: path_suffix_def Let_def i_def split: if_splits)
  from i have l: "length (path_name p) - length (path_suffix p) = nat i"
    by (simp add: s)
  show ?thesis
  proof (rule that [of "take (nat i) (path_name p)"])
    from i show "take (nat i) (path_name p) \<noteq> []" using assms by auto
    show "path_name p = take (nat i) (path_name p) @ path_suffix p" by (simp add: s)
    from False l show "(if path_suffix p = [] then path_name p
      else take (length (path_name p) - length (path_suffix p)) (path_name p)) =
      take (nat i) (path_name p)" by simp
  qed
qed

lemma path_suffix_json:
  assumes "stem \<noteq> []"
  shows "path_suffix (p\<lparr>path_parts := xs @ [stem @ ''.json'']\<rparr>) = ''.json''"
  using assms by (simp add: path_suffix_def path_name_def rfind_json Let_def)

lemma with_suffix_json:
  "with_suffix p ''.json'' =
     (if path_name p = [] then Inl (empty_name_error p)
      else Inr (p\<lparr>path_parts := butlast (path_parts p) @
             [(if path_suffix p = [] then path_name p
               else take (length (path_name p) - length (path_suffix p)) (path_name p))
              @ ''.json'']\<rparr>))"
  by (simp add: with_suffix_def Let_def)

lemma path_suffix_nonempty_name:
  "path_suffix p \<noteq> [] \<Longrightarrow> path_name p \<noteq> []"
  by (auto simp: path_suffix_def rfind_def Let_def)

text \<open>
  C7, as the code has it. For a bot with an index and any path string: when the
  final component of the path is empty, save fails with the \<open>ValueError\<close> of
  \<open>with_suffix\<close> and nothing is persisted; when it is not empty and the pathlib
  suffix differs from \<open>''.json''\<close>, the index is persisted under the same path with
  the suffix of its name replaced by \<open>''.json''\<close> (appended when the name has no
  suffix), and that path has the suffix \<open>''.json''\<close>; when the pathlib suffix is
  \<open>''.json''\<close>, the index is persisted under the path as parsed.
\<close>

theorem save_normalises_suffix:
  assumes "index (qbot st) = Some ix"
  shows
    "(path_name (Path_of path) = [] \<longrightarrow>
        QueryBot_save lib path st = (Inl (empty_name_error (Path_of path)), st))
   \<and> (path_name (Path_of path) \<noteq> [] \<and> path_suffix (Path_of path) \<noteq> ''.json'' \<longrightarrow>
        (\<exists>stem p'.
           stem \<noteq> []
         \<and> path_name (Path_of path) = stem @ path_suffix (Path_of path)
         \<and> p' = (Path_of path)\<lparr>path_parts :=
                   butlast (path_parts (Path_of path)) @ [stem @ ''.json'']\<rparr>
         \<and> path_suffix p' = ''.json''
         \<and> QueryBot_save lib path st =
             (case save_to_disk lib ix p' (world st) of (r, w') \<Rightarrow> (r, st\<lparr>world := w'\<rparr>))))
   \<and> (path_suffix (Path_of path) = ''.json'' \<longrightarrow>
        QueryBot_save lib path st =
          (case save_to_disk lib ix (Path_of path) (world st) of
             (r, w') \<Rightarrow> (r, st\<lparr>world := w'\<rparr>)))"
proof (intro conjI impI)
  assume "path_name (Path_of path) = []"
  then show "QueryBot_save lib path st = (Inl (empty_name_error (Path_of path)), st)"
    by (simp add: QueryBot_save_def Let_def with_suffix_json path_suffix_def)
next
  assume h: "path_name (Path_of path) \<noteq> [] \<and> path_suffix (Path_of path) \<noteq> ''.json''"
  then obtain stem where stem: "stem \<noteq> []"
    "path_name (Path_of path) = stem @ path_suffix (Path_of path)"
    "(if path_suffix (Path_of path) = [] then path_name (Path_of path)
      else take (length (path_name (Path_of path)) - length (path_suffix (Path_of path)))
             (path_name (Path_of path))) = stem"
    using name_stem_suffix [of "Path_of path"] by blast
  define p' where "p' = (Path_of path)\<lparr>path_parts :=
                   butlast (path_parts (Path_of path)) @ [stem @ ''.json'']\<rparr>"
  have "path_suffix p' = ''.json''"
    unfolding p'_def using stem(1) by (rule path_suffix_json)
  moreover from h assms stem(3) have "QueryBot_save lib path st =
             (case save_to_disk lib ix p' (world st) of (r, w') \<Rightarrow> (r, st\<lparr>world := w'\<rparr>))"
    by (simp add: QueryBot_save_def Let_def with_suffix_json p'_def)
  ultimately show "\<exists>stem p'.
           stem \<noteq> []
         \<and> path_name (Path_of path) = stem @ path_suffix (Path_of path)
         \<and> p' = (Path_of path)\<lparr>path_parts :=
                   butlast (path_parts (Path_of path)) @ [stem @ ''.json'']\<rparr>
         \<and> path_suffix p' = ''.json''
         \<and> QueryBot_save lib path st =
             (case save_to_disk lib ix p' (world st) of (r, w') \<Rightarrow> (r, st\<lparr>world := w'\<rparr>))"
    using stem(1,2) p'_def by blast
next
  assume "path_suffix (Path_of path) = ''.json''"
  with assms show "QueryBot_save lib path st =
          (case save_to_disk lib ix (Path_of path) (world st) of
             (r, w') \<Rightarrow> (r, st\<lparr>world := w'\<rparr>))"
    by (simp add: QueryBot_save_def Let_def)
qed

text \<open>
  C7 as stated fails at two paths. The root path has no extension, yet nothing is
  persisted under a \<open>''.json''\<close> name: save raises. The path \<open>''.json''\<close> ends in
  \<open>''.json''\<close>, yet it is not used unchanged: the index goes to \<open>''.json.json''\<close>.
\<close>

theorem save_suffix_counterexample:
  "QueryBot_save toy_lib ''/'' toy_state =
     (Inl (ValueError (''PosixPath('' @ [CHR 0x27] @ ''/'' @ [CHR 0x27] @ '') has an empty name'')),
      toy_state)
   \<and> path_str (Path_of ''.json'') = ''.json''
   \<and> QueryBot_save toy_lib ''.json'' toy_state =
       (Inr (), toy_state\<lparr>world :=
          \<lparr>chunks = [''Fredonia City''], saved = [(''.json.json'', [''Fredonia City''])]\<rparr>\<rparr>)"
  by (simp add: QueryBot_save_def toy_defs path_defs Let_def)

text \<open>
  C9, as the code has it. On a bot without an index, save persists nothing and returns
  the state unchanged; it fails on dereferencing \<open>None\<close> when the path has a
  non-empty final component, and with the \<open>ValueError\<close> of \<open>with_suffix\<close> before
  the index is reached otherwise; in neither case with the configuration error of
  the answer call.
\<close>

theorem save_without_index:
  assumes "index (qbot st) = None"
  shows "QueryBot_save lib path st =
           (Inl (if path_name (Path_of path) = [] then empty_name_error (Path_of path)
                 else AttributeError ''NoneType'' ''save_to_disk''), st)
       \<and> fst (QueryBot_save lib path st) \<noteq> Inl not_initialized"
proof -
  have 1: "QueryBot_save lib path st =
           (Inl (if path_name (Path_of path) = [] then empty_name_error (Path_of path)
                 else AttributeError ''NoneType'' ''save_to_disk''), st)"
  proof (cases "path_name (Path_of path) = []")
    case True
    then have "path_suffix (Path_of path) = []"
      using path_suffix_nonempty_name by blast
    with True show ?thesis
      by (simp add: QueryBot_save_def Let_def with_suffix_json)
  next
    case False
    with assms show ?thesis
      by (simp add: QueryBot_save_def Let_def with_suffix_json)
  qed
  have "empty_name_error (Path_of path) \<noteq> not_initialized"
    by (simp add: empty_name_error_def not_initialized_def)
  with 1 show ?thesis by (simp add: not_initialized_def)
qed

text \<open>
  C9 as stated fails at the empty path: save on a bot without an index raises the
  \<open>ValueError\<close> of \<open>with_suffix\<close>, not the dereference of the absent index.
\<close>

theorem empty_path_fails_before_index:
  "QueryBot_save toy_lib '''' (toy_state\<lparr>qbot := toy_bot\<lparr>index := None\<rparr>\<rparr>) =
     (Inl (ValueError (''PosixPath('' @ [CHR 0x27] @ ''.'' @ [CHR 0x27] @ '') has an empty name'')),
      toy_state\<lparr>qbot := toy_bot\<lparr>index := None\<rparr>\<rparr>)"
  by (simp add: QueryBot_save_def toy_defs path_defs Let_def)


theorem save_normalises_suffix_witness:
  "QueryBot_save toy_lib ''index.bin'' toy_state =
     (Inr (), toy_state\<lparr>world :=
        \<lparr>chunks = [''Fredonia City''], saved = [(''index.json'', [''Fredonia City''])]\<rparr>\<rparr>)
   \<and> QueryBot_save toy_lib ''data/index.json'' toy_state =
     (Inr (), toy_state\<lparr>world :=
        \<lparr>chunks = [''Fredonia City''], saved = [(''data/index.json'', [''Fredonia City''])]\<rparr>\<rparr>)
   \<and> QueryBot_save toy_lib ''/'' toy_state =
     (Inl (empty_name_error \<lparr>path_root = ''/'', path_parts = []\<rparr>), toy_state)"
proof -
  have ix: "index (qbot toy_state) = Some ()" by (simp add: toy_defs)
  have bin: "path_name (Path_of ''index.bin'') \<noteq> [] \<and> path_suffix (Path_of ''index.bin'') \<noteq> ''.json''"
    by (simp add: path_defs)
  have json: "path_suffix (Path_of ''data/index.json'') = ''.json''"
    by (simp add: path_defs)
  have root: "path_name (Path_of ''/'') = []"
    by (simp add: path_defs)
  have p: "Path_of ''/'' = \<lparr>path_root = ''/'', path_parts = []\<rparr>"
    by (simp add: path_defs)
  from save_normalises_suffix [OF ix, of "''/''" toy_lib] root p
  have 3: "QueryBot_save toy_lib ''/'' toy_state =
     (Inl (empty_name_error \<lparr>path_root = ''/'', path_parts = []\<rparr>), toy_state)"
    by simp
  from save_normalises_suffix [OF ix, of "''data/index.json''" toy_lib] json
  have 2: "QueryBot_save toy_lib ''data/index.json'' toy_state =
     (Inr (), toy_state\<lparr>world :=
        \<lparr>chunks = [''Fredonia City''], saved = [(''data/index.json'', [''Fredonia City''])]\<rparr>\<rparr>)"
    by (simp add: toy_defs path_defs)
  from save_normalises_suffix [OF ix, of "''index.bin''" toy_lib] bin
  have 1: "QueryBot_save toy_lib ''index.bin'' toy_state =
     (Inr (), toy_state\<lparr>world :=
        \<lparr>chunks = [''Fredonia City''], saved = [(''index.json'', [''Fredonia City''])]\<rparr>\<rparr>)"
    by (simp add: QueryBot_save_def toy_defs path_defs Let_def)
  from 1 2 3 show ?thesis by (intro conjI)
qed

theorem save_without_index_witness:
  "QueryBot_save toy_lib ''index.bin'' (toy_state\<lparr>qbot := toy_bot\<lparr>index := None\<rparr>\<rparr>) =
     (Inl (AttributeError ''NoneType'' ''save_to_disk''),
      toy_state\<lparr>qbot := toy_bot\<lparr>index := None\<rparr>\<rparr>)"
proof -
  have n: "index (qbot (toy_state\<lparr>qbot := toy_bot\<lparr>index := None\<rparr>\<rparr>)) = None" by simp
  have "path_name (Path_of ''index.bin'') \<noteq> []" by (simp add: path_defs)
  with save_without_index [OF n, of toy_lib "''index.bin''"] show ?thesis by simp
qed

section \<open>The second system instruction and the transient sequence\<close>






end
